theory Spec2Isabelle
  imports Main "HOL-Library.Word"
begin

section \<open>CURAND-backed random streams (theano/sandbox/cuda/rng_curand.py)\<close>

text \<open>
  The module has three layers: the operation class \<open>CURAND_Base\<close> with its two
  concrete classes, whose \<open>c_code\<close> is the C body run at execution time; the
  session object \<open>CURAND_RandomStreams\<close>; and the local rewrite rule
  \<open>local_destructive\<close>. Each is embedded below with the names of the source.
  Python exceptions and the C body's \<open>fail\<close> exits are values of the type
  \<open>error\<close>; the spec's error names map onto them as follows: ShapeError and
  ConfigurationError are \<open>ValueError\<close> (and \<open>AssertionError\<close> at construction),
  ResourceError is \<open>RuntimeError\<close>, UnsupportedError and BroadcastError are
  \<open>NotImplementedError\<close>.
\<close>

subsection \<open>Errors\<close>

datatype error =
    AssertionError
  | ValueError string
  | RuntimeError string
  | NotImplementedError string
  | TypeError
  | AttributeError
  | MemoryError
  | CAssertFailure

subsection \<open>Types of graph values\<close>

text \<open>
  A tensor type as the module reads it: its \<open>dtype\<close> string and its
  \<open>broadcastable\<close> pattern; \<open>ndim\<close> is the length of the pattern.
\<close>

record ttype =
  dtype :: string
  broadcastable :: "bool list"

definition ndim :: "ttype \<Rightarrow> nat" where
  "ndim t = length (broadcastable t)"

text \<open>
  Modelled from the spec: \<open>CudaNdarrayType\<close>, the type constructor of
  theano.sandbox.cuda, is not among the sources. The spec fixes the element type of a
  sampling operation's output to single-precision float; the constructor takes the
  broadcastable pattern only.
\<close>

definition CudaNdarrayType :: "bool list \<Rightarrow> ttype" where
  "CudaNdarrayType bc = \<lparr>dtype = ''float32'', broadcastable = bc\<rparr>"

datatype vtype = Generic | Tensor ttype

subsection \<open>The operation class\<close>

datatype rv_class = CURAND_Normal | CURAND_Uniform

text \<open>
  An instance of \<open>CURAND_Base\<close>: its concrete class and the attributes set by
  \<open>__init__\<close>. \<open>destroy_map\<close> is set to \<open>{0: [0]}\<close> only on a destructive instance.
\<close>

record CURAND_Base =
  op_class :: rv_class
  destructive :: bool
  seed :: int
  destroy_map :: "(nat \<times> nat list) list option"
  output_type :: ttype

definition CURAND_Base_init :: "rv_class \<Rightarrow> ttype \<Rightarrow> int \<Rightarrow> bool \<Rightarrow> error + CURAND_Base" where
  "CURAND_Base_init cls otype sd destr =
     (let self = \<lparr>op_class = cls, destructive = destr, seed = sd,
                  destroy_map = (if destr then Some [(0, [0])] else None),
                  output_type = otype\<rparr>
      in if dtype otype = ''float32'' then Inr self else Inl AssertionError)"

definition as_destructive :: "CURAND_Base \<Rightarrow> error + CURAND_Base" where
  "as_destructive self = CURAND_Base_init (op_class self) (output_type self) (seed self) True"

definition config_of :: "CURAND_Base \<Rightarrow> bool \<times> ttype \<times> int" where
  "config_of self = (destructive self, output_type self, seed self)"

definition op_eq :: "CURAND_Base \<Rightarrow> CURAND_Base \<Rightarrow> bool" where
  "op_eq self other \<longleftrightarrow> op_class self = op_class other \<and> config_of self = config_of other"

subsection \<open>Run-time values and the native library\<close>

text \<open>
  The value held by the generic generator variable: \<open>Py_False\<close> before first use, a
  CObject wrapping a native generator afterwards (identified by the number of the
  generator), or any other Python object.
\<close>

datatype pyobj = Py_False | PyCObject nat | Py_Other

type_synonym int32 = "32 word"

text \<open>
  The \<open>size\<close> argument is a numpy array: its dimensions (\<open>nd\<close> is their number), the
  type number of its descriptor, and its elements as the C body reads them through an
  \<open>npy_int32\<close> pointer.
\<close>

record ndarray =
  dimensions :: "nat list"
  type_num :: nat
  elements :: "int32 list"

definition nd :: "ndarray \<Rightarrow> nat" where
  "nd a = length (dimensions a)"

text \<open>numpy's type number of \<open>int32\<close>; no property below depends on its value.\<close>

definition NPY_INT32 :: nat where
  "NPY_INT32 = 5"

text \<open>
  The output storage for the sample on entry: empty, holding something that is not a
  \<open>CudaNdarray\<close>, or holding a \<open>CudaNdarray\<close> with the given host dimensions.
\<close>

datatype sample_buf = NULL_sample | Not_CudaNdarray | CudaNdarray "int32 list"

text \<open>
  Calls into the native libraries, logged in the order they are made together with the
  status they returned (\<open>0\<close> is \<open>CURAND_STATUS_SUCCESS\<close>). \<open>CreateGenerator k\<close> is the call
  that would create generator number \<open>k\<close>.
\<close>

datatype native_call =
    CudaNdarray_NewDims nat "int32 list"
  | CreateGenerator nat
  | SetPseudoRandomGeneratorSeed nat int
  | GenerateNormal nat int32
  | GenerateUniform nat int32
  | ThreadSynchronize

record native =
  next_gen :: nat
  calls :: "(native_call \<times> nat) list"

text \<open>
  What the native calls of one execution answer: whether \<open>malloc\<close> and
  \<open>CudaNdarray_NewDims\<close> succeed and the status of each CURAND call.
\<close>

record answers =
  malloc_ok :: bool
  newdims_ok :: bool
  create_status :: nat
  seed_status :: nat
  generate_status :: nat

definition log_call :: "native_call \<Rightarrow> nat \<Rightarrow> native \<Rightarrow> native" where
  "log_call c st w = w\<lparr>calls := calls w @ [(c, st)]\<rparr>"

definition is_generator_call :: "native_call \<Rightarrow> bool" where
  "is_generator_call c =
     (case c of CudaNdarray_NewDims _ _ \<Rightarrow> False | ThreadSynchronize \<Rightarrow> False | _ \<Rightarrow> True)"

definition is_create :: "native_call \<Rightarrow> bool" where
  "is_create c = (case c of CreateGenerator _ \<Rightarrow> True | _ \<Rightarrow> False)"

subsection \<open>The C body of an operation\<close>

text \<open>Lines 153-168: the three checks on \<open>size\<close>, in the order of the source.\<close>

definition check_size :: "nat \<Rightarrow> ndarray \<Rightarrow> error option" where
  "check_size n sz =
     (if nd sz \<noteq> 1 then Some (ValueError ''size must be vector'')
      else if dimensions sz ! 0 \<noteq> n then Some (ValueError ''size must have length %i (not %i)'')
      else if type_num sz \<noteq> NPY_INT32 then Some (ValueError ''size must be int32'')
      else None)"

text \<open>
  Lines 169-175: the loop reading \<open>odims\<close>, multiplying up \<open>n_elements\<close> (a C \<open>int\<close>,
  here with 32-bit wrap-around) and comparing with the dimensions of the buffer at hand.
\<close>

definition odims_of :: "nat \<Rightarrow> ndarray \<Rightarrow> int32 list" where
  "odims_of n sz = map (\<lambda>i. elements sz ! i) [0..<n]"

definition n_elements_of :: "int32 list \<Rightarrow> int32" where
  "n_elements_of odims = foldl (\<lambda>acc d. acc * d) 1 odims"

definition must_alloc_sample :: "nat \<Rightarrow> int32 list \<Rightarrow> sample_buf \<Rightarrow> bool" where
  "must_alloc_sample n odims o_sample =
     (case o_sample of
        NULL_sample \<Rightarrow> True
      | Not_CudaNdarray \<Rightarrow> True
      | CudaNdarray hdims \<Rightarrow>
          length hdims \<noteq> n \<or> (\<exists>i \<in> set [0..<n]. hdims ! i \<noteq> odims ! i))"

text \<open>
  Lines 176-184: a fresh sample buffer when one is needed. \<open>MemoryError\<close> stands for the
  exception \<open>CudaNdarray_NewDims\<close> has set when it returns \<open>NULL\<close>.
\<close>

definition alloc_sample ::
  "answers \<Rightarrow> nat \<Rightarrow> int32 list \<Rightarrow> sample_buf \<Rightarrow> native \<Rightarrow> (error + sample_buf) \<times> native" where
  "alloc_sample A n odims o_sample w =
     (if must_alloc_sample n odims o_sample then
        (if newdims_ok A then (Inr (CudaNdarray odims), log_call (CudaNdarray_NewDims n odims) 0 w)
         else (Inl MemoryError, log_call (CudaNdarray_NewDims n odims) 1 w))
      else (Inr o_sample, w))"

text \<open>
  Lines 185-217: the three cases on the incoming generator. The two C \<open>assert\<close>s of the
  first case (on the result of \<open>malloc\<close>, and on the input being \<open>Py_False\<close>) end the
  execution with \<open>CAssertFailure\<close>. Reference counts are not part of the model.
\<close>

definition dispatch_generator ::
  "answers \<Rightarrow> CURAND_Base \<Rightarrow> pyobj \<Rightarrow> native \<Rightarrow> (error + pyobj) \<times> native" where
  "dispatch_generator A self i_generator w =
     (case i_generator of
        PyCObject c \<Rightarrow>
          (if destructive self then (Inr (PyCObject c), w)
           else (Inl (NotImplementedError ''non-destructive CURAND generation''), w))
      | _ \<Rightarrow>
          (if \<not> malloc_ok A then (Inl CAssertFailure, w)
           else
             let k = next_gen w;
                 w1 = log_call (CreateGenerator k) (create_status A) w
             in if create_status A \<noteq> 0
                then (Inl (RuntimeError ''Failed to initialize curand generator''), w1)
                else
                  let w2 = log_call (SetPseudoRandomGeneratorSeed k (seed self)) (seed_status A)
                             (w1\<lparr>next_gen := Suc k\<rparr>)
                  in if seed_status A \<noteq> 0
                     then (Inl (RuntimeError ''Failed to set curand generator seed''), w2)
                     else if i_generator \<noteq> Py_False then (Inl CAssertFailure, w2)
                     else (Inr (PyCObject k), w2)))"

text \<open>
  Lines 218-228: the draw, through the call string of the concrete class (the normal
  draw always with mean 0 and standard deviation 1). The output generator is a CObject
  whenever this part is reached; the other branch of \<open>draw\<close> only makes it total.
\<close>

definition curand_call :: "rv_class \<Rightarrow> nat \<Rightarrow> int32 \<Rightarrow> native_call" where
  "curand_call cls g n =
     (case cls of CURAND_Normal \<Rightarrow> GenerateNormal g n | CURAND_Uniform \<Rightarrow> GenerateUniform g n)"

definition draw ::
  "answers \<Rightarrow> CURAND_Base \<Rightarrow> pyobj \<Rightarrow> int32 \<Rightarrow> native \<Rightarrow> error option \<times> native" where
  "draw A self o_generator n w =
     (case o_generator of
        PyCObject g \<Rightarrow>
          (let w1 = log_call (curand_call (op_class self) g n) (generate_status A) w
           in if generate_status A \<noteq> 0
              then (Some (RuntimeError ''curand error generating random normals %i''), w1)
              else (None, log_call ThreadSynchronize 0 w1))
      | _ \<Rightarrow> (Some CAssertFailure, w))"

text \<open>
  The whole body: inputs \<open>(i_generator, size)\<close>, the sample storage on entry, the
  native state; the result is the pair of outputs \<open>(o_generator, o_sample)\<close> or the
  error of the first \<open>fail\<close> exit taken, with the native state as it then is.
\<close>

definition c_code ::
  "answers \<Rightarrow> CURAND_Base \<Rightarrow> pyobj \<Rightarrow> ndarray \<Rightarrow> sample_buf \<Rightarrow> native
     \<Rightarrow> (error + pyobj \<times> sample_buf) \<times> native" where
  "c_code A self i_generator sz o_sample w =
     (case check_size (ndim (output_type self)) sz of
        Some e \<Rightarrow> (Inl e, w)
      | None \<Rightarrow>
          let n = ndim (output_type self);
              odims = odims_of n sz
          in case alloc_sample A n odims o_sample w of
               (Inl e, w1) \<Rightarrow> (Inl e, w1)
             | (Inr smp, w1) \<Rightarrow>
                 (case dispatch_generator A self i_generator w1 of
                    (Inl e, w2) \<Rightarrow> (Inl e, w2)
                  | (Inr o_gen, w2) \<Rightarrow>
                      (case draw A self o_gen (n_elements_of odims) w2 of
                         (Some e, w3) \<Rightarrow> (Inl e, w3)
                       | (None, w3) \<Rightarrow> (Inr (o_gen, smp), w3))))"

subsection \<open>Symbolic variables and apply nodes\<close>

text \<open>
  A symbolic variable has a type and, when it is the output of an apply node, its
  owner and its index among the owner's outputs. \<open>SharedVariable v\<close> is the generic
  shared variable made by \<open>theano.shared(v)\<close>; \<open>PyNumber\<close> stands for a plain Python
  number passed where a variable may be passed (it is not a \<open>Variable\<close>). An apply node
  holds its operation, its inputs and the types of its outputs.
\<close>

datatype gop = CURAND CURAND_Base | Other_op string

datatype var =
    Variable vtype "(node \<times> nat) option" string
  | SharedVariable pyobj
  | PyNumber string
and node = Apply gop "var list" "vtype list"

fun var_type :: "var \<Rightarrow> error + vtype" where
  "var_type (Variable t _ _) = Inr t"
| "var_type (SharedVariable _) = Inr Generic"
| "var_type (PyNumber _) = Inl AttributeError"

fun node_op :: "node \<Rightarrow> gop" where
  "node_op (Apply opr _ _) = opr"

fun node_inputs :: "node \<Rightarrow> var list" where
  "node_inputs (Apply _ ins _) = ins"

definition outputs :: "node \<Rightarrow> var list" where
  "outputs n = (case n of Apply _ _ tys \<Rightarrow>
     map (\<lambda>(t, i). Variable t (Some (n, i)) []) (zip tys [0..<length tys]))"

text \<open>
  \<open>make_node(self, generator, size)\<close>: two inputs; the outputs are a variable of the
  generator's type and one of the operation's output type.
\<close>

fun make_node :: "CURAND_Base \<Rightarrow> var list \<Rightarrow> error + node" where
  "make_node self [generator, sz] =
     (case var_type generator of
        Inl e \<Rightarrow> Inl e
      | Inr gt \<Rightarrow> Inr (Apply (CURAND self) [generator, sz] [gt, Tensor (output_type self)]))"
| "make_node self _ = Inl TypeError"

subsection \<open>The functions of theano.tensor the module calls\<close>

text \<open>
  \<open>as_tensor_variable\<close>, \<open>get_vector_length\<close>, \<open>cast\<close> and the arithmetic of symbolic
  variables belong to the surrounding framework. They are parameters of the model: a
  value of this record gives what each call returns, or the exception it raises.
\<close>

datatype size_elem = Int_elem int | Var_elem var | Other_elem

datatype size_arg = Tuple_size "size_elem list" | Obj_size var | None_size

record theano =
  as_tensor_variable :: "size_arg \<Rightarrow> error + var"
  get_vector_length :: "var \<Rightarrow> error + int"
  cast :: "var \<Rightarrow> string \<Rightarrow> error + var"
  t_sub :: "var \<Rightarrow> var \<Rightarrow> error + var"
  t_mul :: "var \<Rightarrow> var \<Rightarrow> error + var"
  t_add :: "var \<Rightarrow> var \<Rightarrow> error + var"

subsection \<open>The factory\<close>

text \<open>
  What \<open>new_auto_update\<close> returns: the sample variable with the attributes it sets on
  it (\<open>generator\<close>, \<open>update\<close>) and the \<open>default_update\<close> it sets on the generator.
\<close>

record sample_var =
  sample :: var
  sample_generator :: var
  update :: "var \<times> var"
  default_update :: var

definition new_auto_update ::
  "theano \<Rightarrow> rv_class \<Rightarrow> var \<Rightarrow> int option \<Rightarrow> string \<Rightarrow> size_arg \<Rightarrow> int \<Rightarrow> error + sample_var" where
  "new_auto_update T cls generator ndim_arg dtype_arg sz sd =
     (case as_tensor_variable T sz of
        Inl e \<Rightarrow> Inl e
      | Inr v_size \<Rightarrow>
     (case (case ndim_arg of None \<Rightarrow> get_vector_length T v_size | Some k \<Rightarrow> Inr k) of
        Inl e \<Rightarrow> Inl e
      | Inr k \<Rightarrow>
     (case CURAND_Base_init cls (CudaNdarrayType (replicate (nat k) False)) sd False of
        Inl e \<Rightarrow> Inl e
      | Inr self \<Rightarrow>
     (case cast T v_size ''int32'' of
        Inl e \<Rightarrow> Inl e
      | Inr c_size \<Rightarrow>
     (case make_node self [generator, c_size] of
        Inl e \<Rightarrow> Inl e
      | Inr n \<Rightarrow>
          Inr \<lparr>sample = outputs n ! 1, sample_generator = generator,
               update = (generator, outputs n ! 0),
               default_update = outputs n ! 0\<rparr>)))))"

subsection \<open>The stream\<close>

record CURAND_RandomStreams =
  start_seed :: int
  cur_seed :: int
  has_lost_states :: bool
  state_updates :: "(var \<times> var) list"

definition CURAND_RandomStreams_init :: "int \<Rightarrow> CURAND_RandomStreams" where
  "CURAND_RandomStreams_init sd =
     \<lparr>start_seed = sd, cur_seed = sd, has_lost_states = False, state_updates = []\<rparr>"

definition updates :: "CURAND_RandomStreams \<Rightarrow> (var \<times> var) list" where
  "updates self = state_updates self"

text \<open>\<open>next_seed\<close> returns the value of the counter before the increment, and the stream after it.\<close>

definition next_seed :: "CURAND_RandomStreams \<Rightarrow> int \<times> CURAND_RandomStreams" where
  "next_seed self =
     (let self1 = self\<lparr>cur_seed := cur_seed self + 1\<rparr> in (cur_seed self1 - 1, self1))"

text \<open>\<open>n\<close> calls of \<open>next_seed\<close> in a row: the values returned, in order, and the stream left.\<close>

fun next_seeds :: "nat \<Rightarrow> CURAND_RandomStreams \<Rightarrow> int list \<times> CURAND_RandomStreams" where
  "next_seeds 0 self = ([], self)"
| "next_seeds (Suc n) self =
     (case next_seed self of (x, self1) \<Rightarrow>
        (case next_seeds n self1 of (xs, self2) \<Rightarrow> (x # xs, self2)))"

text \<open>\<open>__getstate__\<close>: a copy of the attributes with the two entries overwritten.\<close>

definition getstate :: "CURAND_RandomStreams \<Rightarrow> CURAND_RandomStreams" where
  "getstate self = self\<lparr>state_updates := [], has_lost_states := True\<rparr>"

text \<open>The assertion on \<open>size\<close> that opens \<open>uniform\<close> and \<open>normal\<close>.\<close>

definition check_size_arg :: "size_arg \<Rightarrow> error option" where
  "check_size_arg sz =
     (case sz of
        Tuple_size es \<Rightarrow>
          (if list_all (\<lambda>e. case e of Int_elem _ \<Rightarrow> True
                               | Var_elem v \<Rightarrow> (case v of PyNumber _ \<Rightarrow> False | _ \<Rightarrow> True)
                               | Other_elem \<Rightarrow> False) es
           then None else Some AssertionError)
      | Obj_size v \<Rightarrow>
          (case v of
             PyNumber _ \<Rightarrow> Some AssertionError
           | _ \<Rightarrow> (case var_type v of
                    Inr (Tensor t) \<Rightarrow> if ndim t = 1 then None else Some AssertionError
                  | _ \<Rightarrow> Some AttributeError))
      | None_size \<Rightarrow> Some AssertionError)"

definition broadcastable_of :: "var \<Rightarrow> error + bool list" where
  "broadcastable_of v =
     (case var_type v of Inr (Tensor t) \<Rightarrow> Inr (broadcastable t) | _ \<Rightarrow> Inl AttributeError)"

text \<open>
  The part \<open>uniform\<close> and \<open>normal\<close> share: the check of \<open>size\<close>, the fresh generic
  generator, the factory call with the next seed, and the recording of the update
  pair. The stream is returned as the call leaves it, also when the call raises.
\<close>

definition draw_raw ::
  "theano \<Rightarrow> rv_class \<Rightarrow> CURAND_RandomStreams \<Rightarrow> size_arg \<Rightarrow> int option \<Rightarrow> string
     \<Rightarrow> (error + sample_var) \<times> CURAND_RandomStreams" where
  "draw_raw T cls self sz ndim_arg dtype_arg =
     (case check_size_arg sz of
        Some e \<Rightarrow> (Inl e, self)
      | None \<Rightarrow>
     (case as_tensor_variable T sz of
        Inl e \<Rightarrow> (Inl e, self)
      | Inr s_size \<Rightarrow>
     (case next_seed self of (sd, self1) \<Rightarrow>
     (case new_auto_update T cls (SharedVariable Py_False) ndim_arg dtype_arg (Obj_size s_size) sd of
        Inl e \<Rightarrow> (Inl e, self1)
      | Inr u \<Rightarrow>
          (Inr u, self1\<lparr>state_updates := state_updates self1 @ [update u]\<rparr>)))))"

text \<open>The check of the broadcasting patterns that closes \<open>uniform\<close> and \<open>normal\<close>.\<close>

definition check_broadcast :: "string \<Rightarrow> var \<Rightarrow> var \<Rightarrow> error + var" where
  "check_broadcast msg u rval =
     (case broadcastable_of u of
        Inl e \<Rightarrow> Inl e
      | Inr ub \<Rightarrow>
     (case broadcastable_of rval of
        Inl e \<Rightarrow> Inl e
      | Inr rb \<Rightarrow> if ub \<noteq> rb then Inl (NotImplementedError msg) else Inr rval))"

definition uniform ::
  "theano \<Rightarrow> CURAND_RandomStreams \<Rightarrow> size_arg \<Rightarrow> var \<Rightarrow> var \<Rightarrow> int option \<Rightarrow> string
     \<Rightarrow> (error + var) \<times> CURAND_RandomStreams" where
  "uniform T self sz low high ndim_arg dtype_arg =
     (case draw_raw T CURAND_Uniform self sz ndim_arg dtype_arg of
        (Inl e, self1) \<Rightarrow> (Inl e, self1)
      | (Inr u, self1) \<Rightarrow>
     (case t_sub T high low of
        Inl e \<Rightarrow> (Inl e, self1)
      | Inr d \<Rightarrow>
     (case t_mul T (sample u) d of
        Inl e \<Rightarrow> (Inl e, self1)
      | Inr m \<Rightarrow>
     (case t_add T m low of
        Inl e \<Rightarrow> (Inl e, self1)
      | Inr rval \<Rightarrow>
          (check_broadcast
             ''Increase the size to match the broadcasting pattern of low and `high` arguments''
             (sample u) rval, self1)))))"

definition normal ::
  "theano \<Rightarrow> CURAND_RandomStreams \<Rightarrow> size_arg \<Rightarrow> var \<Rightarrow> var \<Rightarrow> int option \<Rightarrow> string
     \<Rightarrow> (error + var) \<times> CURAND_RandomStreams" where
  "normal T self sz avg std ndim_arg dtype_arg =
     (case draw_raw T CURAND_Normal self sz ndim_arg dtype_arg of
        (Inl e, self1) \<Rightarrow> (Inl e, self1)
      | (Inr u, self1) \<Rightarrow>
     (case t_mul T (sample u) std of
        Inl e \<Rightarrow> (Inl e, self1)
      | Inr m \<Rightarrow>
     (case t_add T m avg of
        Inl e \<Rightarrow> (Inl e, self1)
      | Inr rval \<Rightarrow>
          (check_broadcast
             ''Increase the size to match the broadcasting pattern of `low`and `high` arguments''
             (sample u) rval, self1))))"

subsection \<open>The rewrite to destructive operations\<close>

text \<open>
  \<open>local_destructive(node)\<close>: the outputs of the destructive node that replaces
  \<open>node\<close>, or \<open>None\<close> where the source returns \<open>False\<close> (the rule does not fire).
\<close>

definition local_destructive :: "node \<Rightarrow> error + var list option" where
  "local_destructive n =
     (case node_op n of
        CURAND opr \<Rightarrow>
          (if \<not> destructive opr then
             (case as_destructive opr of
                Inl e \<Rightarrow> Inl e
              | Inr new_op \<Rightarrow>
                  (case make_node new_op (node_inputs n) of
                     Inl e \<Rightarrow> Inl e
                   | Inr n' \<Rightarrow> Inr (Some (outputs n'))))
           else Inr None)
      | Other_op _ \<Rightarrow> Inr None)"

text \<open>
  Modelled from the spec: the driver that applies the rule over a whole graph
  (\<open>opt.in2out\<close>, registered in \<open>optdb\<close>) is not among the sources. The spec has it
  visit every node, replace a node on which the rule fires by the node the rule built
  on the same inputs, and splice the new outputs in place of the old ones. Here a graph
  is given by its output variables; \<open>rewire\<close> is a node with the pass applied to its
  inputs, and a variable owned by a node is replaced by the matching new output when
  the rule fires on the rewired owner.
\<close>

fun pass_var :: "var \<Rightarrow> var" and rewire :: "node \<Rightarrow> node" where
  "pass_var (Variable t None nm) = Variable t None nm"
| "pass_var (Variable t (Some (n, i)) nm) =
     (let n1 = rewire n in
      case local_destructive n1 of
        Inr (Some outs) \<Rightarrow> if i < length outs then outs ! i else Variable t (Some (n1, i)) nm
      | _ \<Rightarrow> Variable t (Some (n1, i)) nm)"
| "pass_var (SharedVariable v) = SharedVariable v"
| "pass_var (PyNumber x) = PyNumber x"
| "rewire (Apply opr ins tys) = Apply opr (map pass_var ins) tys"

definition DestructiveRewritePass :: "var list \<Rightarrow> var list" where
  "DestructiveRewritePass g = map pass_var g"

text \<open>
  The apply nodes of a graph built by this module: every sampling operation in it was
  constructed by \<open>__init__\<close> and applied by \<open>make_node\<close>, and a variable with an owner
  is one of the owner's outputs.
\<close>

fun built_var :: "var \<Rightarrow> bool" and built_node :: "node \<Rightarrow> bool" where
  "built_var (Variable t None nm) = True"
| "built_var (Variable t (Some (n, i)) nm) =
     (built_node n \<and> (case n of Apply _ _ tys \<Rightarrow> i < length tys \<and> tys ! i = t))"
| "built_var (SharedVariable v) = True"
| "built_var (PyNumber x) = True"
| "built_node (Apply opr ins tys) =
     (list_all built_var ins \<and>
      (case opr of
         CURAND c \<Rightarrow>
           CURAND_Base_init (op_class c) (output_type c) (seed c) (destructive c) = Inr c \<and>
           make_node c ins = Inr (Apply opr ins tys)
       | Other_op _ \<Rightarrow> True))"

text \<open>The sampling operations a graph still holds with \<open>destructive = False\<close>.\<close>

fun copying_ops_var :: "var \<Rightarrow> CURAND_Base list" and copying_ops :: "node \<Rightarrow> CURAND_Base list" where
  "copying_ops_var (Variable t None nm) = []"
| "copying_ops_var (Variable t (Some (n, i)) nm) = copying_ops n"
| "copying_ops_var (SharedVariable v) = []"
| "copying_ops_var (PyNumber x) = []"
| "copying_ops (Apply opr ins tys) =
     (case opr of CURAND c \<Rightarrow> (if destructive c then [] else [c]) | Other_op _ \<Rightarrow> [])
     @ concat (map copying_ops_var ins)"

text \<open>The seed of the operation that owns a variable, when a sampling operation owns it.\<close>

fun owner_seed :: "var \<Rightarrow> int option" where
  "owner_seed (Variable t (Some (Apply (CURAND c) ins tys, i)) nm) = Some (seed c)"
| "owner_seed _ = None"

text \<open>A client's calls on a stream, run in order; a call that raises leaves the stream as it then is.\<close>

datatype request =
    Uniform_call size_arg var var "int option" string
  | Normal_call size_arg var var "int option" string

fun run_calls :: "theano \<Rightarrow> request list \<Rightarrow> CURAND_RandomStreams \<Rightarrow> CURAND_RandomStreams" where
  "run_calls T [] self = self"
| "run_calls T (Uniform_call sz low high k d # rs) self =
     run_calls T rs (snd (uniform T self sz low high k d))"
| "run_calls T (Normal_call sz avg std k d # rs) self =
     run_calls T rs (snd (normal T self sz avg std k d))"

subsection \<open>Sample inputs\<close>

text \<open>
  One concrete execution to evaluate the definitions on: a rank-2 operation with seed
  42, the size vector \<open>[2, 3]\<close>, a native library whose calls all succeed, and a native
  state in which generator number 0 already exists.
\<close>

definition ex_answers :: answers where
  "ex_answers = \<lparr>malloc_ok = True, newdims_ok = True, create_status = 0, seed_status = 0,
                  generate_status = 0\<rparr>"

definition ex_size :: ndarray where
  "ex_size = \<lparr>dimensions = [2], type_num = NPY_INT32, elements = [2, 3]\<rparr>"

definition ex_op :: "rv_class \<Rightarrow> bool \<Rightarrow> CURAND_Base" where
  "ex_op cls d = \<lparr>op_class = cls, destructive = d, seed = 42,
     destroy_map = (if d then Some [(0, [0])] else None),
     output_type = CudaNdarrayType [False, False]\<rparr>"

definition ex_native :: native where
  "ex_native = \<lparr>next_gen = 1, calls = []\<rparr>"

subsection \<open>The seeds a stream has handed to operations\<close>

text \<open>
  The seeds of the operations that own the new generator values recorded in
  \<open>state_updates\<close>, and the invariant the stream keeps: they are pairwise different
  and all below the counter.
\<close>

definition seeds_recorded :: "CURAND_RandomStreams \<Rightarrow> int option list" where
  "seeds_recorded self = map (\<lambda>p. owner_seed (snd p)) (state_updates self)"

definition seeds_below :: "int \<Rightarrow> int option list \<Rightarrow> bool" where
  "seeds_below c xs = list_all (\<lambda>x. case x of None \<Rightarrow> False | Some k \<Rightarrow> k < c) xs"

definition seeds_inv :: "CURAND_RandomStreams \<Rightarrow> bool" where
  "seeds_inv self \<longleftrightarrow>
     distinct (seeds_recorded self) \<and> seeds_below (cur_seed self) (seeds_recorded self)"

subsection \<open>A sample framework\<close>

text \<open>
  One concrete choice for the functions of the framework, to evaluate the stream on:
  a tuple becomes a vector variable built from as many elements, whose length
  \<open>get_vector_length\<close> reads back, and the result of an arithmetic operation has the
  broadcastable pattern of its operand of higher rank.
\<close>

definition ex_elemwise :: "string \<Rightarrow> var \<Rightarrow> var \<Rightarrow> error + var" where
  "ex_elemwise nm a b =
     (case (broadcastable_of a, broadcastable_of b) of
        (Inl _, Inl _) \<Rightarrow> Inr (PyNumber nm)
      | (x, y) \<Rightarrow>
          (let bx = (case x of Inr p \<Rightarrow> p | Inl _ \<Rightarrow> []);
               by = (case y of Inr p \<Rightarrow> p | Inl _ \<Rightarrow> []);
               t = Tensor \<lparr>dtype = ''float32'',
                           broadcastable = (if length bx < length by then by else bx)\<rparr>
           in Inr (Variable t (Some (Apply (Other_op nm) [a, b] [t], 0)) [])))"

definition ex_int_vector :: vtype where
  "ex_int_vector = Tensor \<lparr>dtype = ''int64'', broadcastable = [False]\<rparr>"

definition ex_theano :: theano where
  "ex_theano =
     \<lparr>as_tensor_variable = (\<lambda>sz. case sz of
          Tuple_size es \<Rightarrow>
            Inr (Variable ex_int_vector
                   (Some (Apply (Other_op ''MakeVector'') (map (\<lambda>e. PyNumber ''int'') es) [ex_int_vector], 0)) [])
        | Obj_size v \<Rightarrow> Inr v
        | None_size \<Rightarrow> Inl TypeError),
      get_vector_length = (\<lambda>v. case v of
          Variable _ (Some (Apply (Other_op _) ins _, _)) _ \<Rightarrow> Inr (int (length ins))
        | _ \<Rightarrow> Inl (ValueError ''length not known'')),
      cast = (\<lambda>v d. Inr (Variable (Tensor \<lparr>dtype = d, broadcastable = [False]\<rparr>)
                             (Some (Apply (Other_op ''cast'') [v] [Tensor \<lparr>dtype = d, broadcastable = [False]\<rparr>], 0)) [])),
      t_sub = ex_elemwise ''sub'',
      t_mul = ex_elemwise ''mul'',
      t_add = ex_elemwise ''add''\<rparr>"

definition ex_tensor3 :: var where
  "ex_tensor3 = Variable (Tensor \<lparr>dtype = ''float32'', broadcastable = [False, False, False]\<rparr>) None ''low''"

definition ex_size_var :: var where
  "ex_size_var = Variable ex_int_vector None ''size''"

text \<open>
  A sample graph: the generator output of one uniform operation, and a product that
  consumes its sample.
\<close>

definition ex_node :: "bool \<Rightarrow> node" where
  "ex_node d = Apply (CURAND (ex_op CURAND_Uniform d)) [SharedVariable Py_False, ex_size_var]
                 [Generic, Tensor (CudaNdarrayType [False, False])]"

definition ex_graph :: "bool \<Rightarrow> var list" where
  "ex_graph d =
     [outputs (ex_node d) ! 0,
      Variable (Tensor (CudaNdarrayType [False, False]))
        (Some (Apply (Other_op ''mul'') [outputs (ex_node d) ! 1, PyNumber ''2'']
                 [Tensor (CudaNdarrayType [False, False])], 0)) ''rval'']"

section \<open>Properties of the C body\<close>

lemmas ex_defs = ex_answers_def ex_size_def ex_op_def ex_native_def CudaNdarrayType_def
  ndim_def nd_def

lemma odims_ex: "odims_of 2 ex_size = [2, 3]"
  by (simp add: odims_of_def ex_size_def upt_rec)

lemma ndim_ex_op: "ndim (output_type (ex_op cls d)) = 2"
  by (simp add: ex_op_def CudaNdarrayType_def ndim_def)

lemma ex_op_fields: "op_class (ex_op cls d) = cls" "seed (ex_op cls d) = 42" "destructive (ex_op cls d) = d"
  by (simp_all add: ex_op_def)

lemma n_elements_ex: "n_elements_of [2, 3] = 6"
  by (simp add: n_elements_of_def)

lemma alloc_sample_cases:
  "alloc_sample A n odims smp w =
     (if must_alloc_sample n odims smp \<and> \<not> newdims_ok A
      then (Inl MemoryError, log_call (CudaNdarray_NewDims n odims) 1 w)
      else (Inr (if must_alloc_sample n odims smp then CudaNdarray odims else smp),
            if must_alloc_sample n odims smp then log_call (CudaNdarray_NewDims n odims) 0 w else w))"
  by (simp add: alloc_sample_def)



text \<open>
  C7. When the \<open>size\<close> argument is not a vector, or its length is not the declared
  rank of the output, or its elements are not of type \<open>int32\<close>, the execution fails
  with a \<open>ValueError\<close> (the spec's ShapeError / ConfigurationError), and the native state
  is exactly what it was on entry: no native call of any kind has been made, so no
  generator has been created, seeded or drawn from.
\<close>

theorem c_code_rejects_bad_size:
  "nd sz \<noteq> 1 \<or> dimensions sz ! 0 \<noteq> ndim (output_type self) \<or> type_num sz \<noteq> NPY_INT32 \<Longrightarrow>
   \<exists>m. c_code A self i_generator sz o_sample w = (Inl (ValueError m), w)"
  by (auto simp: c_code_def check_size_def)

theorem c_code_rejects_bad_size_witness:
  "nd (ex_size\<lparr>dimensions := [2, 1]\<rparr>) \<noteq> 1
   \<and> (\<exists>m. c_code ex_answers (ex_op CURAND_Uniform False) Py_False (ex_size\<lparr>dimensions := [2, 1]\<rparr>)
              NULL_sample ex_native
            = (Inl (ValueError m), ex_native))"
  using c_code_rejects_bad_size [of "ex_size\<lparr>dimensions := [2, 1]\<rparr>" "ex_op CURAND_Uniform False"
      ex_answers Py_False NULL_sample ex_native]
  by (simp add: ex_defs)

text \<open>
  C1. An operation with \<open>destructive = False\<close> whose generator input is a live CObject
  never produces outputs: every execution ends in an error, without any call to the
  generator library and without creating a generator. When the \<open>size\<close> argument passes
  the checks of C7 and the sample buffer is available (so that control reaches the case
  distinction on the generator), the error is the \<open>NotImplementedError\<close> of the
  unimplemented branch (the spec's UnsupportedError; the message in the source is
  ``non-destructive CURAND generation'').
\<close>

theorem c_code_copy_of_live_generator:
  assumes "\<not> destructive self"
  shows "(\<exists>e. fst (c_code A self (PyCObject c) sz o_sample w) = Inl e)
       \<and> filter (is_generator_call \<circ> fst) (calls (snd (c_code A self (PyCObject c) sz o_sample w)))
           = filter (is_generator_call \<circ> fst) (calls w)
       \<and> next_gen (snd (c_code A self (PyCObject c) sz o_sample w)) = next_gen w
       \<and> (nd sz = 1 \<and> dimensions sz ! 0 = ndim (output_type self) \<and> type_num sz = NPY_INT32
            \<and> (must_alloc_sample (ndim (output_type self)) (odims_of (ndim (output_type self)) sz) o_sample
                 \<longrightarrow> newdims_ok A)
          \<longrightarrow> fst (c_code A self (PyCObject c) sz o_sample w)
                = Inl (NotImplementedError ''non-destructive CURAND generation''))"
  using assms
  by (auto simp: c_code_def check_size_def alloc_sample_cases dispatch_generator_def log_call_def
      is_generator_call_def Let_def split: option.splits)

theorem c_code_copy_of_live_generator_witness:
  "\<not> destructive (ex_op CURAND_Normal False)
   \<and> nd ex_size = 1 \<and> dimensions ex_size ! 0 = ndim (output_type (ex_op CURAND_Normal False))
   \<and> type_num ex_size = NPY_INT32 \<and> newdims_ok ex_answers
   \<and> fst (c_code ex_answers (ex_op CURAND_Normal False) (PyCObject 0) ex_size NULL_sample ex_native)
       = Inl (NotImplementedError ''non-destructive CURAND generation'')"
  using c_code_copy_of_live_generator [of "ex_op CURAND_Normal False" ex_answers 0 ex_size
      NULL_sample ex_native]
  by (simp add: ex_defs)

text \<open>
  C2. An operation with \<open>destructive = True\<close> whose generator input is a live CObject:
  whatever output handle an execution returns is the input handle itself, no execution
  makes a create call or changes the number of generators, and an execution whose
  \<open>size\<close> argument passes the checks, whose sample buffer is available and whose draw
  succeeds does return, with the input handle as output handle and the draw made on the
  input handle's generator.
\<close>

theorem c_code_destructive_reuse:
  assumes "destructive self"
  shows "(\<forall>g s. fst (c_code A self (PyCObject c) sz o_sample w) = Inr (g, s) \<longrightarrow> g = PyCObject c)
       \<and> filter (is_create \<circ> fst) (calls (snd (c_code A self (PyCObject c) sz o_sample w)))
           = filter (is_create \<circ> fst) (calls w)
       \<and> next_gen (snd (c_code A self (PyCObject c) sz o_sample w)) = next_gen w
       \<and> (nd sz = 1 \<and> dimensions sz ! 0 = ndim (output_type self) \<and> type_num sz = NPY_INT32
            \<and> alloc_sample A (ndim (output_type self)) (odims_of (ndim (output_type self)) sz) o_sample w
                 = (Inr smp, w1)
            \<and> generate_status A = 0
          \<longrightarrow> c_code A self (PyCObject c) sz o_sample w
                = (Inr (PyCObject c, smp),
                   w1\<lparr>calls := calls w1 @
                      [(curand_call (op_class self) c
                          (n_elements_of (odims_of (ndim (output_type self)) sz)), 0),
                       (ThreadSynchronize, 0)]\<rparr>))"
  using assms
  by (auto simp: c_code_def check_size_def alloc_sample_cases dispatch_generator_def log_call_def
      is_create_def draw_def curand_call_def Let_def split: option.splits rv_class.splits)

theorem c_code_destructive_reuse_witness:
  "destructive (ex_op CURAND_Uniform True)
   \<and> nd ex_size = 1 \<and> dimensions ex_size ! 0 = ndim (output_type (ex_op CURAND_Uniform True))
   \<and> type_num ex_size = NPY_INT32 \<and> generate_status ex_answers = 0
   \<and> c_code ex_answers (ex_op CURAND_Uniform True) (PyCObject 0) ex_size (CudaNdarray [2, 3]) ex_native
       = (Inr (PyCObject 0, CudaNdarray [2, 3]),
          \<lparr>next_gen = 1, calls = [(GenerateUniform 0 6, 0), (ThreadSynchronize, 0)]\<rparr>)"
proof -
  let ?op = "ex_op CURAND_Uniform True"
  have h1: "destructive ?op" by (simp add: ex_op_def)
  have h2: "nd ex_size = 1" by (simp add: ex_size_def nd_def)
  have h3: "dimensions ex_size ! 0 = ndim (output_type ?op)" by (simp add: ex_size_def ndim_ex_op)
  have h4: "type_num ex_size = NPY_INT32" by (simp add: ex_size_def)
  have h5: "generate_status ex_answers = 0" by (simp add: ex_answers_def)
  have a: "alloc_sample ex_answers (ndim (output_type ?op)) (odims_of (ndim (output_type ?op)) ex_size)
             (CudaNdarray [2, 3]) ex_native = (Inr (CudaNdarray [2, 3]), ex_native)"
    by (simp add: alloc_sample_def must_alloc_sample_def ndim_ex_op odims_ex upt_rec)
  have "c_code ex_answers ?op (PyCObject 0) ex_size (CudaNdarray [2, 3]) ex_native
          = (Inr (PyCObject 0, CudaNdarray [2, 3]),
             ex_native\<lparr>calls := calls ex_native @
               [(curand_call (op_class ?op) 0 (n_elements_of (odims_of (ndim (output_type ?op)) ex_size)), 0),
                (ThreadSynchronize, 0)]\<rparr>)"
    using c_code_destructive_reuse [OF h1, of ex_answers 0 ex_size "CudaNdarray [2, 3]" ex_native
        "CudaNdarray [2, 3]" ex_native] h2 h3 h4 h5 a
    by blast
  then have "c_code ex_answers ?op (PyCObject 0) ex_size (CudaNdarray [2, 3]) ex_native
       = (Inr (PyCObject 0, CudaNdarray [2, 3]),
          \<lparr>next_gen = 1, calls = [(GenerateUniform 0 6, 0), (ThreadSynchronize, 0)]\<rparr>)"
    by (simp add: ndim_ex_op odims_ex n_elements_ex curand_call_def ex_op_fields ex_native_def)
  with h1 h2 h3 h4 h5 show ?thesis by blast
qed



section \<open>Properties of the operation class and the factory\<close>

lemma outputs_two:
  "outputs (Apply opr ins [a, b])
     = [Variable a (Some (Apply opr ins [a, b], 0)) [], Variable b (Some (Apply opr ins [a, b], 1)) []]"
  by (simp add: outputs_def upt_rec)

lemma CURAND_Base_init_Cuda:
  "CURAND_Base_init cls (CudaNdarrayType bc) sd destr
     = Inr \<lparr>op_class = cls, destructive = destr, seed = sd,
            destroy_map = (if destr then Some [(0, [0])] else None),
            output_type = CudaNdarrayType bc\<rparr>"
  by (simp add: CURAND_Base_init_def CudaNdarrayType_def)

lemma new_auto_update_Inr:
  assumes "new_auto_update T cls g k d sz sd = Inr u"
  shows "\<exists>r c_size gt.
           (let opr = \<lparr>op_class = cls, destructive = False, seed = sd, destroy_map = None,
                        output_type = CudaNdarrayType (replicate (nat r) False)\<rparr>;
                n = Apply (CURAND opr) [g, c_size] [gt, Tensor (output_type opr)]
            in (k = None \<or> k = Some r) \<and> var_type g = Inr gt
               \<and> u = \<lparr>sample = Variable (Tensor (output_type opr)) (Some (n, 1)) [],
                       sample_generator = g,
                       update = (g, Variable gt (Some (n, 0)) []),
                       default_update = Variable gt (Some (n, 0)) []\<rparr>)"
  using assms
  by (auto simp: new_auto_update_def CURAND_Base_init_Cuda outputs_two Let_def
      split: sum.splits option.splits)

lemma new_auto_update_seed:
  "new_auto_update T cls g k d sz sd = Inr u \<Longrightarrow> owner_seed (snd (update u)) = Some sd"
  by (drule new_auto_update_Inr) (auto simp: Let_def)

lemma new_auto_update_bcast:
  "new_auto_update T cls g k d sz sd = Inr u \<Longrightarrow>
   \<exists>r. broadcastable_of (sample u) = Inr (replicate r False)
      \<and> var_type (sample u) = Inr (Tensor (CudaNdarrayType (replicate r False)))
      \<and> (\<forall>x. k = Some x \<longrightarrow> r = nat x)"
  by (drule new_auto_update_Inr) (auto simp: Let_def broadcastable_of_def CudaNdarrayType_def)

lemma new_auto_update_dtype:
  "new_auto_update T cls g k d1 sz sd = new_auto_update T cls g k d2 sz sd"
  unfolding new_auto_update_def by (rule refl)

text \<open>
  C9. An operation exists only with an output type whose \<open>dtype\<close> is \<open>float32\<close>:
  \<open>__init__\<close> ends in its assertion (an \<open>AssertionError\<close> at construction, before any
  execution) for every other \<open>dtype\<close>, and for \<open>float32\<close> it returns the instance with
  exactly the attributes given.
\<close>

theorem CURAND_Base_init_float32:
  "(\<forall>self. CURAND_Base_init cls otype sd destr = Inr self \<longrightarrow>
       dtype (output_type self) = ''float32'' \<and> output_type self = otype)
   \<and> (dtype otype \<noteq> ''float32'' \<longrightarrow> CURAND_Base_init cls otype sd destr = Inl AssertionError)
   \<and> (dtype otype = ''float32'' \<longrightarrow>
        CURAND_Base_init cls otype sd destr
          = Inr \<lparr>op_class = cls, destructive = destr, seed = sd,
                 destroy_map = (if destr then Some [(0, [0])] else None),
                 output_type = otype\<rparr>)"
  by (auto simp: CURAND_Base_init_def Let_def)

theorem CURAND_Base_init_float32_witness:
  "dtype \<lparr>dtype = ''float64'', broadcastable = [False]\<rparr> \<noteq> ''float32''
   \<and> CURAND_Base_init CURAND_Normal \<lparr>dtype = ''float64'', broadcastable = [False]\<rparr> 7 False
       = Inl AssertionError
   \<and> dtype (CudaNdarrayType [False]) = ''float32''
   \<and> CURAND_Base_init CURAND_Normal (CudaNdarrayType [False]) 7 False
       = Inr \<lparr>op_class = CURAND_Normal, destructive = False, seed = 7, destroy_map = None,
              output_type = CudaNdarrayType [False]\<rparr>"
  using CURAND_Base_init_float32 [of CURAND_Normal "\<lparr>dtype = ''float64'', broadcastable = [False]\<rparr>" 7 False]
    CURAND_Base_init_float32 [of CURAND_Normal "CudaNdarrayType [False]" 7 False]
  by (simp add: CudaNdarrayType_def)

section \<open>Properties of the stream\<close>

lemma draw_raw_dtype:
  "draw_raw T cls self sz k d1 = draw_raw T cls self sz k d2"
  unfolding draw_raw_def new_auto_update_def by (rule refl)

lemma draw_raw_Inr:
  assumes "draw_raw T cls self sz k d = (Inr u, self1)"
  shows "self1 = self\<lparr>cur_seed := cur_seed self + 1, state_updates := state_updates self @ [update u]\<rparr>
       \<and> (\<exists>s_size. new_auto_update T cls (SharedVariable Py_False) k d (Obj_size s_size) (cur_seed self) = Inr u)"
  using assms
  by (auto simp: draw_raw_def next_seed_def Let_def split: option.splits sum.splits)

lemma draw_raw_Inl:
  assumes "draw_raw T cls self sz k d = (Inl e, self1)"
  shows "self1 = self \<or> self1 = self\<lparr>cur_seed := cur_seed self + 1\<rparr>"
  using assms
  by (auto simp: draw_raw_def next_seed_def Let_def split: option.splits sum.splits)

lemma snd_uniform: "snd (uniform T self sz low high k d) = snd (draw_raw T CURAND_Uniform self sz k d)"
  by (auto simp: uniform_def split: prod.splits sum.splits)

lemma snd_normal: "snd (normal T self sz avg std k d) = snd (draw_raw T CURAND_Normal self sz k d)"
  by (auto simp: normal_def split: prod.splits sum.splits)

lemma seeds_below_mono: "seeds_below c xs \<Longrightarrow> c \<le> c' \<Longrightarrow> seeds_below c' xs"
  unfolding seeds_below_def by (induction xs) (auto split: option.splits)

lemma seeds_below_fresh: "seeds_below c xs \<Longrightarrow> Some c \<notin> set xs"
  unfolding seeds_below_def by (induction xs) (auto split: option.splits)

lemma seeds_below_snoc: "seeds_below c (xs @ [Some k]) \<longleftrightarrow> seeds_below c xs \<and> k < c"
  unfolding seeds_below_def by simp

lemma seeds_inv_draw_raw:
  assumes "seeds_inv self"
  shows "seeds_inv (snd (draw_raw T cls self sz k d))"
proof (cases "draw_raw T cls self sz k d")
  case (Pair r self1)
  from assms have d: "distinct (seeds_recorded self)"
    and b: "seeds_below (cur_seed self) (seeds_recorded self)"
    by (simp_all add: seeds_inv_def)
  have b1: "seeds_below (cur_seed self + 1) (seeds_recorded self)"
    using b by (rule seeds_below_mono) simp
  show ?thesis
  proof (cases r)
    case (Inl e)
    with Pair have "self1 = self \<or> self1 = self\<lparr>cur_seed := cur_seed self + 1\<rparr>"
      by (auto dest: draw_raw_Inl)
    then show ?thesis
      using d b b1 Pair by (auto simp: seeds_inv_def seeds_recorded_def)
  next
    case (Inr u)
    with Pair have s1: "self1 = self\<lparr>cur_seed := cur_seed self + 1,
                                 state_updates := state_updates self @ [update u]\<rparr>"
      and o: "owner_seed (snd (update u)) = Some (cur_seed self)"
      by (auto dest!: draw_raw_Inr dest: new_auto_update_seed)
    have "seeds_recorded self1 = seeds_recorded self @ [Some (cur_seed self)]"
      by (simp add: s1 o seeds_recorded_def)
    moreover have "cur_seed self1 = cur_seed self + 1"
      by (simp add: s1)
    ultimately show ?thesis
      using d b1 seeds_below_fresh [OF b] Pair by (simp add: seeds_inv_def seeds_below_snoc)
  qed
qed

lemma seeds_inv_run_calls: "seeds_inv self \<Longrightarrow> seeds_inv (run_calls T rs self)"
proof (induction rs arbitrary: self)
  case Nil
  then show ?case by simp
next
  case (Cons r rs)
  then show ?case
    by (cases r) (simp_all add: snd_uniform snd_normal seeds_inv_draw_raw)
qed

lemma seeds_inv_init: "seeds_inv (CURAND_RandomStreams_init s)"
  by (simp add: seeds_inv_def seeds_recorded_def seeds_below_def CURAND_RandomStreams_init_def)

lemma next_seeds_eq:
  "next_seeds n self =
     (map (\<lambda>i. cur_seed self + int i) [0..<n], self\<lparr>cur_seed := cur_seed self + int n\<rparr>)"
proof (induction n arbitrary: self)
  case 0
  then show ?case by simp
next
  case (Suc n)
  have "map (\<lambda>i. cur_seed self + int i) [0..<Suc n]
        = cur_seed self # map (\<lambda>i. cur_seed self + 1 + int i) [0..<n]"
    by (simp add: upt_conv_Cons map_Suc_upt [symmetric] del: upt_Suc)
  then show ?case
    by (simp add: Suc next_seed_def Let_def del: upt_Suc)
qed

lemma seeds_distinct: "distinct (map (\<lambda>i. (s::int) + int i) [0..<n])"
  by (simp add: distinct_map inj_on_def)

lemma seeds_increasing: "sorted_wrt (<) (map (\<lambda>i. (s::int) + int i) [0..<n])"
  by (simp add: sorted_wrt_map sorted_wrt_iff_nth_less)

lemma ex_draw_raw_any:
  "\<exists>u. draw_raw ex_theano cls self (Tuple_size [Int_elem 2, Int_elem 3]) None d
        = (Inr u, self\<lparr>cur_seed := cur_seed self + 1,
                       state_updates := state_updates self @ [update u]\<rparr>)
      \<and> broadcastable_of (sample u) = Inr [False, False]
      \<and> owner_seed (snd (update u)) = Some (cur_seed self)"
  by (simp add: draw_raw_def check_size_arg_def ex_theano_def next_seed_def new_auto_update_def
      CURAND_Base_init_def outputs_two broadcastable_of_def
      CudaNdarrayType_def ex_int_vector_def Let_def numeral_2_eq_2)

lemma ex_broadcastable_PyNumber: "broadcastable_of (PyNumber x) = Inl AttributeError"
  by (simp add: broadcastable_of_def)

lemma ex_broadcastable_tensor3: "broadcastable_of ex_tensor3 = Inr [False, False, False]"
  by (simp add: broadcastable_of_def ex_tensor3_def)

lemma ex_theano_ops:
  "t_sub ex_theano = ex_elemwise ''sub''" "t_mul ex_theano = ex_elemwise ''mul''"
  "t_add ex_theano = ex_elemwise ''add''"
  by (simp_all add: ex_theano_def)

lemma ex_elemwise_numbers: "ex_elemwise nm (PyNumber x) (PyNumber y) = Inr (PyNumber nm)"
  by (simp add: ex_elemwise_def ex_broadcastable_PyNumber)

lemma ex_elemwise_left:
  "broadcastable_of a = Inr bx \<Longrightarrow> broadcastable_of b = Inl e \<Longrightarrow>
   \<exists>v. ex_elemwise nm a b = Inr v \<and> broadcastable_of v = Inr bx"
  by (simp add: ex_elemwise_def broadcastable_of_def Let_def)

lemma ex_elemwise_right:
  "broadcastable_of a = Inl e \<Longrightarrow> broadcastable_of b = Inr bx \<Longrightarrow>
   \<exists>v. ex_elemwise nm a b = Inr v \<and> broadcastable_of v = Inr bx"
  by (simp add: ex_elemwise_def broadcastable_of_def Let_def)

lemma ex_elemwise_both:
  "broadcastable_of a = Inr bx \<Longrightarrow> broadcastable_of b = Inr bx' \<Longrightarrow>
   \<exists>v. ex_elemwise nm a b = Inr v
      \<and> broadcastable_of v = Inr (if length bx < length bx' then bx' else bx)"
  by (simp add: ex_elemwise_def broadcastable_of_def Let_def)

text \<open>
  C4. \<open>next_seed\<close> returns the counter and leaves it incremented by one. From a new
  stream with starting seed \<open>s\<close>, \<open>n\<close> calls in a row return \<open>s, s + 1, \<dots>, s + n - 1\<close>:
  the first value is \<open>s\<close>, the values are pairwise different and strictly increasing.
  Consequently, whatever calls of \<open>uniform\<close> and \<open>normal\<close> a client makes on a new
  stream, the operations recorded in \<open>state_updates\<close> all carry different seeds.
\<close>

theorem next_seed_distinct:
  "next_seed self = (cur_seed self, self\<lparr>cur_seed := cur_seed self + 1\<rparr>)
   \<and> fst (next_seeds n (CURAND_RandomStreams_init s)) = map (\<lambda>i. s + int i) [0..<n]
   \<and> cur_seed (snd (next_seeds n (CURAND_RandomStreams_init s))) = s + int n
   \<and> hd (fst (next_seeds (Suc n) (CURAND_RandomStreams_init s))) = s
   \<and> distinct (fst (next_seeds n (CURAND_RandomStreams_init s)))
   \<and> sorted_wrt (<) (fst (next_seeds n (CURAND_RandomStreams_init s)))
   \<and> distinct (seeds_recorded (run_calls T rs (CURAND_RandomStreams_init s)))
   \<and> None \<notin> set (seeds_recorded (run_calls T rs (CURAND_RandomStreams_init s)))"
proof -
  have c: "cur_seed (CURAND_RandomStreams_init s) = s"
    by (simp add: CURAND_RandomStreams_init_def)
  have "seeds_inv (run_calls T rs (CURAND_RandomStreams_init s))"
    by (rule seeds_inv_run_calls) (rule seeds_inv_init)
  then have d: "distinct (seeds_recorded (run_calls T rs (CURAND_RandomStreams_init s)))"
    and n: "None \<notin> set (seeds_recorded (run_calls T rs (CURAND_RandomStreams_init s)))"
    by (auto simp: seeds_inv_def seeds_below_def list_all_iff)
  have h: "hd (fst (next_seeds (Suc n) (CURAND_RandomStreams_init s))) = s"
    by (simp add: next_seed_def c Let_def split: prod.splits)
  show ?thesis
    using d n h
    by (simp add: next_seeds_eq c seeds_distinct seeds_increasing next_seed_def Let_def del: upt_Suc next_seeds.simps)
qed

theorem next_seed_distinct_witness:
  "fst (next_seeds 3 (CURAND_RandomStreams_init 42)) = [42, 43, 44]
   \<and> distinct (fst (next_seeds 3 (CURAND_RandomStreams_init 42)))
   \<and> distinct (seeds_recorded (run_calls ex_theano
        [Uniform_call (Tuple_size [Int_elem 2, Int_elem 3]) (PyNumber ''0'') (PyNumber ''1'') None ''float32'',
         Normal_call (Tuple_size [Int_elem 2, Int_elem 3]) (PyNumber ''0'') (PyNumber ''1'') None ''float32'']
        (CURAND_RandomStreams_init 42)))
   \<and> seeds_recorded (run_calls ex_theano
        [Uniform_call (Tuple_size [Int_elem 2, Int_elem 3]) (PyNumber ''0'') (PyNumber ''1'') None ''float32'',
         Normal_call (Tuple_size [Int_elem 2, Int_elem 3]) (PyNumber ''0'') (PyNumber ''1'') None ''float32'']
        (CURAND_RandomStreams_init 42)) = [Some 42, Some 43]"
proof -
  let ?rs = "[Uniform_call (Tuple_size [Int_elem 2, Int_elem 3]) (PyNumber ''0'') (PyNumber ''1'') None ''float32'',
         Normal_call (Tuple_size [Int_elem 2, Int_elem 3]) (PyNumber ''0'') (PyNumber ''1'') None ''float32'']"
  let ?s0 = "CURAND_RandomStreams_init 42"
  note t = next_seed_distinct [of ?s0 3 42 ex_theano ?rs]
  have a: "fst (next_seeds 3 ?s0) = [42, 43, 44]"
    using t by (simp add: upt_rec)
  obtain u1 where u1: "draw_raw ex_theano CURAND_Uniform ?s0 (Tuple_size [Int_elem 2, Int_elem 3]) None ''float32''
        = (Inr u1, ?s0\<lparr>cur_seed := cur_seed ?s0 + 1, state_updates := state_updates ?s0 @ [update u1]\<rparr>)"
      and o1: "owner_seed (snd (update u1)) = Some (cur_seed ?s0)"
    using ex_draw_raw_any [of CURAND_Uniform ?s0 "''float32''"] by blast
  let ?s1 = "?s0\<lparr>cur_seed := cur_seed ?s0 + 1, state_updates := state_updates ?s0 @ [update u1]\<rparr>"
  obtain u2 where u2: "draw_raw ex_theano CURAND_Normal ?s1 (Tuple_size [Int_elem 2, Int_elem 3]) None ''float32''
        = (Inr u2, ?s1\<lparr>cur_seed := cur_seed ?s1 + 1, state_updates := state_updates ?s1 @ [update u2]\<rparr>)"
      and o2: "owner_seed (snd (update u2)) = Some (cur_seed ?s1)"
    using ex_draw_raw_any [of CURAND_Normal ?s1 "''float32''"] by blast
  let ?s2 = "?s1\<lparr>cur_seed := cur_seed ?s1 + 1, state_updates := state_updates ?s1 @ [update u2]\<rparr>"
  have "run_calls ex_theano ?rs ?s0 = ?s2"
    by (simp add: snd_uniform snd_normal u1 u2)
  then have "seeds_recorded (run_calls ex_theano ?rs ?s0) = seeds_recorded ?s2"
    by (rule arg_cong)
  also have "\<dots> = [Some 42, Some 43]"
    by (simp add: o1 o2 seeds_recorded_def CURAND_RandomStreams_init_def)
  finally have b: "seeds_recorded (run_calls ex_theano ?rs ?s0) = [Some 42, Some 43]" .
  from t have d1: "distinct (fst (next_seeds 3 ?s0))"
    and d2: "distinct (seeds_recorded (run_calls ex_theano ?rs ?s0))"
    by blast+
  from a d1 d2 b show ?thesis by blast
qed

text \<open>
  C6. \<open>__getstate__\<close> returns, for every stream and without raising, a state whose
  list of update pairs is empty and whose \<open>_has_lost_states\<close> flag is \<open>True\<close>, with the
  starting seed and the seed counter as they were.
\<close>

theorem getstate_drops_updates:
  "state_updates (getstate self) = []
   \<and> has_lost_states (getstate self) = True
   \<and> start_seed (getstate self) = start_seed self
   \<and> cur_seed (getstate self) = cur_seed self"
  by (simp add: getstate_def)

text \<open>
  C8. With \<open>u\<close> the raw draw built by the factory, \<open>uniform\<close> computes
  \<open>u * (high - low) + low\<close> and \<open>normal\<close> computes \<open>u * std + avg\<close>; each returns that
  value when its broadcastable pattern is the one of \<open>u\<close> and raises
  \<open>NotImplementedError\<close> (the spec's BroadcastError) when it is not. In both outcomes
  the stream already holds the update pair of \<open>u\<close> at the end of \<open>state_updates\<close>.
\<close>

theorem uniform_normal_scaling:
  "(\<forall>u self1 df m rval rb.
      draw_raw T CURAND_Uniform self sz k d = (Inr u, self1) \<and> t_sub T high low = Inr df
        \<and> t_mul T (sample u) df = Inr m \<and> t_add T m low = Inr rval
        \<and> broadcastable_of rval = Inr rb
      \<longrightarrow> state_updates self1 = state_updates self @ [update u]
        \<and> (\<exists>ub. broadcastable_of (sample u) = Inr ub
              \<and> uniform T self sz low high k d
                  = (if ub \<noteq> rb
                     then Inl (NotImplementedError
                       ''Increase the size to match the broadcasting pattern of low and `high` arguments'')
                     else Inr rval, self1)))
   \<and> (\<forall>u self1 m rval rb.
      draw_raw T CURAND_Normal self sz k d = (Inr u, self1)
        \<and> t_mul T (sample u) std = Inr m \<and> t_add T m avg = Inr rval
        \<and> broadcastable_of rval = Inr rb
      \<longrightarrow> state_updates self1 = state_updates self @ [update u]
        \<and> (\<exists>ub. broadcastable_of (sample u) = Inr ub
              \<and> normal T self sz avg std k d
                  = (if ub \<noteq> rb
                     then Inl (NotImplementedError
                       ''Increase the size to match the broadcasting pattern of `low`and `high` arguments'')
                     else Inr rval, self1)))"
proof (intro conjI allI impI)
  fix u self1 df m rval rb
  assume h: "draw_raw T CURAND_Uniform self sz k d = (Inr u, self1) \<and> t_sub T high low = Inr df
        \<and> t_mul T (sample u) df = Inr m \<and> t_add T m low = Inr rval
        \<and> broadcastable_of rval = Inr rb"
  then show "state_updates self1 = state_updates self @ [update u]"
    by (auto dest!: draw_raw_Inr)
  from h obtain ub where "broadcastable_of (sample u) = Inr ub"
    by (auto dest!: draw_raw_Inr new_auto_update_bcast)
  with h show "\<exists>ub. broadcastable_of (sample u) = Inr ub
              \<and> uniform T self sz low high k d
                  = (if ub \<noteq> rb
                     then Inl (NotImplementedError
                       ''Increase the size to match the broadcasting pattern of low and `high` arguments'')
                     else Inr rval, self1)"
    by (simp add: uniform_def check_broadcast_def)
next
  fix u self1 m rval rb
  assume h: "draw_raw T CURAND_Normal self sz k d = (Inr u, self1)
        \<and> t_mul T (sample u) std = Inr m \<and> t_add T m avg = Inr rval
        \<and> broadcastable_of rval = Inr rb"
  then show "state_updates self1 = state_updates self @ [update u]"
    by (auto dest!: draw_raw_Inr)
  from h obtain ub where "broadcastable_of (sample u) = Inr ub"
    by (auto dest!: draw_raw_Inr new_auto_update_bcast)
  with h show "\<exists>ub. broadcastable_of (sample u) = Inr ub
              \<and> normal T self sz avg std k d
                  = (if ub \<noteq> rb
                     then Inl (NotImplementedError
                       ''Increase the size to match the broadcasting pattern of `low`and `high` arguments'')
                     else Inr rval, self1)"
    by (simp add: normal_def check_broadcast_def)
qed

theorem uniform_normal_scaling_witness:
  "(\<exists>rval. fst (uniform ex_theano (CURAND_RandomStreams_init 42) (Tuple_size [Int_elem 2, Int_elem 3])
                   (PyNumber ''-1'') (PyNumber ''1'') None ''float32'') = Inr rval)
   \<and> length (state_updates (snd (uniform ex_theano (CURAND_RandomStreams_init 42)
                   (Tuple_size [Int_elem 2, Int_elem 3]) (PyNumber ''-1'') (PyNumber ''1'') None ''float32''))) = 1
   \<and> fst (normal ex_theano (CURAND_RandomStreams_init 42) (Tuple_size [Int_elem 2, Int_elem 3])
            ex_tensor3 (PyNumber ''2'') None ''float32'')
       = Inl (NotImplementedError
           ''Increase the size to match the broadcasting pattern of `low`and `high` arguments'')
   \<and> length (state_updates (snd (normal ex_theano (CURAND_RandomStreams_init 42)
                   (Tuple_size [Int_elem 2, Int_elem 3]) ex_tensor3 (PyNumber ''2'') None ''float32''))) = 1"
proof -
  let ?s0 = "CURAND_RandomStreams_init 42"
  let ?sz = "Tuple_size [Int_elem 2, Int_elem 3]"
  have e: "state_updates ?s0 = []"
    by (simp add: CURAND_RandomStreams_init_def)
  \<comment> \<open>the uniform call: scalar bounds, the patterns agree\<close>
  obtain u self1 where du: "draw_raw ex_theano CURAND_Uniform ?s0 ?sz None ''float32'' = (Inr u, self1)"
    and bu: "broadcastable_of (sample u) = Inr [False, False]"
    using ex_draw_raw_any [of CURAND_Uniform ?s0 "''float32''"] by blast
  have sub: "t_sub ex_theano (PyNumber ''1'') (PyNumber ''-1'') = Inr (PyNumber ''sub'')"
    by (simp add: ex_theano_ops ex_elemwise_numbers)
  obtain m where mul: "t_mul ex_theano (sample u) (PyNumber ''sub'') = Inr m"
    and bm: "broadcastable_of m = Inr [False, False]"
    using ex_elemwise_left [OF bu ex_broadcastable_PyNumber [of "''sub''"], where nm = "''mul''"]
    by (auto simp: ex_theano_ops)
  obtain rval where add: "t_add ex_theano m (PyNumber ''-1'') = Inr rval"
    and br: "broadcastable_of rval = Inr [False, False]"
    using ex_elemwise_left [OF bm ex_broadcastable_PyNumber [of "''-1''"], where nm = "''add''"]
    by (auto simp: ex_theano_ops)
  have ru: "state_updates self1 = state_updates ?s0 @ [update u]
        \<and> (\<exists>ub. broadcastable_of (sample u) = Inr ub
              \<and> uniform ex_theano ?s0 ?sz (PyNumber ''-1'') (PyNumber ''1'') None ''float32''
                  = (if ub \<noteq> [False, False]
                     then Inl (NotImplementedError
                       ''Increase the size to match the broadcasting pattern of low and `high` arguments'')
                     else Inr rval, self1))"
    using uniform_normal_scaling [of ex_theano ?s0 ?sz None "''float32''" "PyNumber ''1''"
        "PyNumber ''-1''"] du sub mul add br
    by blast
  \<comment> \<open>the normal call: a rank-3 mean, the patterns differ\<close>
  obtain v self2 where dv: "draw_raw ex_theano CURAND_Normal ?s0 ?sz None ''float32'' = (Inr v, self2)"
    and bv: "broadcastable_of (sample v) = Inr [False, False]"
    using ex_draw_raw_any [of CURAND_Normal ?s0 "''float32''"] by blast
  obtain m2 where mul2: "t_mul ex_theano (sample v) (PyNumber ''2'') = Inr m2"
    and bm2: "broadcastable_of m2 = Inr [False, False]"
    using ex_elemwise_left [OF bv ex_broadcastable_PyNumber [of "''2''"], where nm = "''mul''"]
    by (auto simp: ex_theano_ops)
  obtain rval2 where add2: "t_add ex_theano m2 ex_tensor3 = Inr rval2"
    and br2: "broadcastable_of rval2 = Inr [False, False, False]"
    using ex_elemwise_both [OF bm2 ex_broadcastable_tensor3, where nm = "''add''"]
    by (auto simp: ex_theano_ops)
  have rn: "state_updates self2 = state_updates ?s0 @ [update v]
        \<and> (\<exists>ub. broadcastable_of (sample v) = Inr ub
              \<and> normal ex_theano ?s0 ?sz ex_tensor3 (PyNumber ''2'') None ''float32''
                  = (if ub \<noteq> [False, False, False]
                     then Inl (NotImplementedError
                       ''Increase the size to match the broadcasting pattern of `low`and `high` arguments'')
                     else Inr rval2, self2))"
    using uniform_normal_scaling [of ex_theano ?s0 ?sz None "''float32''" _ _ "PyNumber ''2''" ex_tensor3]
      dv mul2 add2 br2
    by blast
  show ?thesis
    using ru rn bu bv e by auto
qed

text \<open>
  C10. The \<open>dtype\<close> argument of \<open>new_auto_update\<close>, \<open>uniform\<close> and \<open>normal\<close> has no
  effect: two calls that differ only in it return the same result (the same value or
  the same exception) and leave the same stream. The type of the sample is the
  \<open>CudaNdarrayType\<close> with an all-\<open>False\<close> pattern of the rank (\<open>ndim\<close> when given), whose
  element type is \<open>float32\<close>.
\<close>

theorem dtype_argument_ignored:
  "new_auto_update T cls g k d1 sz sd = new_auto_update T cls g k d2 sz sd
   \<and> uniform T self sz low high k d1 = uniform T self sz low high k d2
   \<and> normal T self sz avg std k d1 = normal T self sz avg std k d2
   \<and> (\<forall>u. new_auto_update T cls g k d1 sz sd = Inr u \<longrightarrow>
        (\<exists>r. var_type (sample u) = Inr (Tensor (CudaNdarrayType (replicate r False)))
            \<and> dtype (CudaNdarrayType (replicate r False)) = ''float32''
            \<and> (\<forall>x. k = Some x \<longrightarrow> r = nat x)))"
proof (intro conjI allI impI)
  show "new_auto_update T cls g k d1 sz sd = new_auto_update T cls g k d2 sz sd"
    by (rule new_auto_update_dtype)
  show "uniform T self sz low high k d1 = uniform T self sz low high k d2"
    unfolding uniform_def draw_raw_dtype [of T CURAND_Uniform self sz k d1 d2] by (rule refl)
  show "normal T self sz avg std k d1 = normal T self sz avg std k d2"
    unfolding normal_def draw_raw_dtype [of T CURAND_Normal self sz k d1 d2] by (rule refl)
next
  fix u
  assume "new_auto_update T cls g k d1 sz sd = Inr u"
  then obtain r where "var_type (sample u) = Inr (Tensor (CudaNdarrayType (replicate r False)))"
    and "\<forall>x. k = Some x \<longrightarrow> r = nat x"
    by (auto dest!: new_auto_update_bcast)
  then show "\<exists>r. var_type (sample u) = Inr (Tensor (CudaNdarrayType (replicate r False)))
            \<and> dtype (CudaNdarrayType (replicate r False)) = ''float32''
            \<and> (\<forall>x. k = Some x \<longrightarrow> r = nat x)"
    by (auto simp: CudaNdarrayType_def)
qed

theorem dtype_argument_ignored_witness:
  "(\<exists>u t. new_auto_update ex_theano CURAND_Uniform (SharedVariable Py_False) (Some 2) ''float64''
             (Obj_size ex_size_var) 42 = Inr u
         \<and> var_type (sample u) = Inr (Tensor t) \<and> dtype t = ''float32'' \<and> broadcastable t = [False, False])
   \<and> new_auto_update ex_theano CURAND_Uniform (SharedVariable Py_False) (Some 2) ''float64''
        (Obj_size ex_size_var) 42
      = new_auto_update ex_theano CURAND_Uniform (SharedVariable Py_False) (Some 2) ''float32''
          (Obj_size ex_size_var) 42"
proof -
  note t = dtype_argument_ignored [of ex_theano CURAND_Uniform "SharedVariable Py_False" "Some 2"
      "''float64''" "Obj_size ex_size_var" 42 "''float32''"]
  have "\<exists>u. new_auto_update ex_theano CURAND_Uniform (SharedVariable Py_False) (Some 2) ''float64''
             (Obj_size ex_size_var) 42 = Inr u"
    by (simp add: new_auto_update_def ex_theano_def CURAND_Base_init_def CudaNdarrayType_def)
  then obtain u where u: "new_auto_update ex_theano CURAND_Uniform (SharedVariable Py_False) (Some 2)
      ''float64'' (Obj_size ex_size_var) 42 = Inr u" ..
  with t obtain r where "var_type (sample u) = Inr (Tensor (CudaNdarrayType (replicate r False)))"
    and "dtype (CudaNdarrayType (replicate r False)) = ''float32''" and "r = nat 2"
    by blast
  then have "var_type (sample u) = Inr (Tensor (CudaNdarrayType [False, False]))
      \<and> dtype (CudaNdarrayType [False, False]) = ''float32''
      \<and> broadcastable (CudaNdarrayType [False, False]) = [False, False]"
    by (simp add: numeral_2_eq_2 CudaNdarrayType_def)
  with u t show ?thesis by blast
qed

section \<open>Properties of the rewrite\<close>

lemma make_node_Inr:
  "make_node c ins = Inr n \<Longrightarrow>
   \<exists>g s gt. ins = [g, s] \<and> var_type g = Inr gt \<and> n = Apply (CURAND c) [g, s] [gt, Tensor (output_type c)]"
  by (cases "(c, ins)" rule: make_node.cases) (auto split: sum.splits)

lemma as_destructive_Inr:
  "as_destructive c = Inr c' \<Longrightarrow>
   c' = c\<lparr>destructive := True, destroy_map := Some [(0, [0])]\<rparr> \<and> dtype (output_type c) = ''float32''"
  by (auto simp: as_destructive_def CURAND_Base_init_def Let_def split: if_splits)

lemma as_destructive_built:
  "CURAND_Base_init (op_class c) (output_type c) (seed c) d = Inr c0 \<Longrightarrow>
   as_destructive c = Inr (c\<lparr>destructive := True, destroy_map := Some [(0, [0])]\<rparr>)"
  by (auto simp: as_destructive_def CURAND_Base_init_def Let_def split: if_splits)

lemma local_destructive_Some:
  assumes "local_destructive n = Inr (Some outs)"
  shows "\<exists>c g s gt tys.
           n = Apply (CURAND c) [g, s] tys \<and> \<not> destructive c \<and> var_type g = Inr gt
           \<and> as_destructive c = Inr (c\<lparr>destructive := True, destroy_map := Some [(0, [0])]\<rparr>)
           \<and> outs = outputs (Apply (CURAND (c\<lparr>destructive := True, destroy_map := Some [(0, [0])]\<rparr>))
                               [g, s] [gt, Tensor (output_type c)])"
proof (cases n)
  case (Apply opr ins tys)
  with assms obtain c c' n' where o: "opr = CURAND c" and nd: "\<not> destructive c"
    and a: "as_destructive c = Inr c'" and m: "make_node c' ins = Inr n'" and outs: "outs = outputs n'"
    by (auto simp: local_destructive_def split: gop.splits if_splits sum.splits)
  from a have c': "c' = c\<lparr>destructive := True, destroy_map := Some [(0, [0])]\<rparr>"
    by (simp add: as_destructive_Inr)
  from m obtain g s gt where "ins = [g, s]" "var_type g = Inr gt"
    "n' = Apply (CURAND c') [g, s] [gt, Tensor (output_type c')]"
    by (blast dest: make_node_Inr)
  with Apply o nd a c' outs show ?thesis
    by auto
qed

lemma local_destructive_destructive:
  "destructive c \<Longrightarrow> local_destructive (Apply (CURAND c) ins tys) = Inr None"
  by (simp add: local_destructive_def)

lemma local_destructive_other: "local_destructive (Apply (Other_op nm) ins tys) = Inr None"
  by (simp add: local_destructive_def)

lemma outputs_nth:
  "i < 2 \<Longrightarrow> outputs (Apply opr ins [a, b]) ! i = Variable ([a, b] ! i) (Some (Apply opr ins [a, b], i)) []"
  by (cases i) (auto simp: outputs_two less_Suc_eq numeral_2_eq_2)

lemma rewire_fixed_inputs: "rewire n = n \<Longrightarrow> map pass_var (node_inputs n) = node_inputs n"
  by (cases n) simp

lemma pass_idem:
  "pass_var (pass_var v) = pass_var v" "rewire (rewire n) = rewire n"
proof (induction v and n rule: pass_var_rewire.induct)
  case (1 t nm)
  show ?case by simp
next
  case (2 t n i nm)
  let ?n1 = "rewire n"
  have fx: "rewire ?n1 = ?n1" by (rule 2)
  show ?case
  proof (cases "\<exists>outs. local_destructive ?n1 = Inr (Some outs) \<and> i < length outs")
    case True
    then obtain outs where ld: "local_destructive ?n1 = Inr (Some outs)" and i: "i < length outs"
      by blast
    from local_destructive_Some [OF ld] obtain c g s gt tys where
      n1: "?n1 = Apply (CURAND c) [g, s] tys" and gt: "var_type g = Inr gt"
      and outs: "outs = outputs (Apply (CURAND (c\<lparr>destructive := True, destroy_map := Some [(0, [0])]\<rparr>))
                               [g, s] [gt, Tensor (output_type c)])"
      by blast
    let ?c' = "c\<lparr>destructive := True, destroy_map := Some [(0, [0])]\<rparr>"
    let ?tys = "[gt, Tensor (output_type c)]"
    let ?n' = "Apply (CURAND ?c') [g, s] ?tys"
    from i outs have i2: "i < 2" by (simp add: outputs_two)
    have r: "pass_var (Variable t (Some (n, i)) nm) = Variable (?tys ! i) (Some (?n', i)) []"
      using ld i outs i2 by (simp add: outputs_nth Let_def)
    from fx n1 have "map pass_var [g, s] = [g, s]"
      by (auto dest: rewire_fixed_inputs)
    then have "rewire ?n' = ?n'" by simp
    moreover have "local_destructive ?n' = Inr None"
      by (simp add: local_destructive_destructive)
    ultimately have "pass_var (Variable (?tys ! i) (Some (?n', i)) []) = Variable (?tys ! i) (Some (?n', i)) []"
      by (simp add: Let_def)
    with r show ?thesis by simp
  next
    case False
    then have r: "pass_var (Variable t (Some (n, i)) nm) = Variable t (Some (?n1, i)) nm"
      by (auto simp: Let_def split: sum.splits option.splits)
    from False fx have "pass_var (Variable t (Some (?n1, i)) nm) = Variable t (Some (?n1, i)) nm"
      by (auto simp: Let_def split: sum.splits option.splits)
    with r show ?thesis by simp
  qed
next
  case (3 v)
  show ?case by simp
next
  case (4 x)
  show ?case by simp
next
  case (5 opr ins tys)
  then show ?case by simp
qed

lemma pass_var_owned:
  "(pass_var (Variable t (Some (n, i)) nm) = Variable t (Some (rewire n, i)) nm
      \<and> (\<forall>outs. local_destructive (rewire n) = Inr (Some outs) \<longrightarrow> \<not> i < length outs))
   \<or> (\<exists>c g s gt tys.
         rewire n = Apply (CURAND c) [g, s] tys \<and> \<not> destructive c \<and> i < 2
         \<and> pass_var (Variable t (Some (n, i)) nm)
             = Variable ([gt, Tensor (output_type c)] ! i)
                 (Some (Apply (CURAND (c\<lparr>destructive := True, destroy_map := Some [(0, [0])]\<rparr>))
                          [g, s] [gt, Tensor (output_type c)], i)) [])"
proof (cases "\<exists>outs. local_destructive (rewire n) = Inr (Some outs) \<and> i < length outs")
  case True
  then obtain outs where ld: "local_destructive (rewire n) = Inr (Some outs)" and i: "i < length outs"
    by blast
  from local_destructive_Some [OF ld] obtain c g s gt tys where
    n1: "rewire n = Apply (CURAND c) [g, s] tys" and nd: "\<not> destructive c"
    and outs: "outs = outputs (Apply (CURAND (c\<lparr>destructive := True, destroy_map := Some [(0, [0])]\<rparr>))
                             [g, s] [gt, Tensor (output_type c)])"
    by blast
  from i outs have i2: "i < 2" by (simp add: outputs_two)
  have "pass_var (Variable t (Some (n, i)) nm)
          = Variable ([gt, Tensor (output_type c)] ! i)
              (Some (Apply (CURAND (c\<lparr>destructive := True, destroy_map := Some [(0, [0])]\<rparr>))
                       [g, s] [gt, Tensor (output_type c)], i)) []"
    using ld i outs i2 by (simp add: outputs_nth Let_def)
  with n1 nd i2 show ?thesis by blast
next
  case False
  then have "pass_var (Variable t (Some (n, i)) nm) = Variable t (Some (rewire n, i)) nm"
    by (auto simp: Let_def split: sum.splits option.splits)
  with False show ?thesis by blast
qed

lemma pass_var_typed: "var_type v = Inr t \<Longrightarrow> \<exists>t'. var_type (pass_var v) = Inr t'"
proof (cases v)
  case (Variable t0 ow nm)
  show ?thesis
  proof (cases ow)
    case None
    with Variable show ?thesis by simp
  next
    case (Some p)
    obtain n i where "p = (n, i)" by (cases p)
    with Variable Some pass_var_owned [of t0 n i nm] show ?thesis by auto
  qed
qed simp_all

lemma local_destructive_built:
  assumes "built_node (Apply (CURAND c) ins tys)" and "\<not> destructive c"
  shows "\<exists>g s gt gt'.
           ins = [g, s] \<and> tys = [gt, Tensor (output_type c)]
           \<and> as_destructive c = Inr (c\<lparr>destructive := True, destroy_map := Some [(0, [0])]\<rparr>)
           \<and> local_destructive (Apply (CURAND c) ins tys)
               = Inr (Some (outputs (Apply (CURAND (c\<lparr>destructive := True, destroy_map := Some [(0, [0])]\<rparr>))
                                      ins tys)))
           \<and> local_destructive (rewire (Apply (CURAND c) ins tys))
               = Inr (Some (outputs (Apply (CURAND (c\<lparr>destructive := True, destroy_map := Some [(0, [0])]\<rparr>))
                                      (map pass_var ins) [gt', Tensor (output_type c)])))"
proof -
  from assms(1) have i: "CURAND_Base_init (op_class c) (output_type c) (seed c) (destructive c) = Inr c"
    and m: "make_node c ins = Inr (Apply (CURAND c) ins tys)"
    by simp_all
  from m obtain g s gt where ins: "ins = [g, s]" and gt: "var_type g = Inr gt"
    and tys: "tys = [gt, Tensor (output_type c)]"
    by (auto dest: make_node_Inr)
  from gt obtain gt' where gt': "var_type (pass_var g) = Inr gt'"
    by (blast dest: pass_var_typed)
  note a = as_destructive_built [OF i]
  show ?thesis
    using assms(2) ins gt tys gt' a by (auto simp: local_destructive_def)
qed

lemma pass_clean:
  "built_var v \<longrightarrow> copying_ops_var (pass_var v) = []"
  "built_node n \<longrightarrow> concat (map copying_ops_var (node_inputs (rewire n))) = []"
proof (induction v and n rule: pass_var_rewire.induct)
  case (1 t nm)
  show ?case by simp
next
  case (2 t n i nm)
  show ?case
  proof
    assume b: "built_var (Variable t (Some (n, i)) nm)"
    obtain opr ins tys where n: "n = Apply opr ins tys" by (cases n)
    from b n have bn: "built_node (Apply opr ins tys)" and il: "i < length tys" by simp_all
    from 2 b have clean: "concat (map copying_ops_var (node_inputs (rewire n))) = []" by simp
    from pass_var_owned [of t n i nm]
    show "copying_ops_var (pass_var (Variable t (Some (n, i)) nm)) = []"
    proof
      assume h: "pass_var (Variable t (Some (n, i)) nm) = Variable t (Some (rewire n, i)) nm
          \<and> (\<forall>outs. local_destructive (rewire n) = Inr (Some outs) \<longrightarrow> \<not> i < length outs)"
      have "\<not> (\<exists>c. opr = CURAND c \<and> \<not> destructive c)"
      proof
        assume "\<exists>c. opr = CURAND c \<and> \<not> destructive c"
        then obtain c where c: "opr = CURAND c" "\<not> destructive c" by blast
        with bn local_destructive_built [of c ins tys] obtain gt gt' outs where
          "tys = [gt, Tensor (output_type c)]"
          "local_destructive (rewire (Apply (CURAND c) ins tys)) = Inr (Some outs)"
          "outs = outputs (Apply (CURAND (c\<lparr>destructive := True, destroy_map := Some [(0, [0])]\<rparr>))
                                      (map pass_var ins) [gt', Tensor (output_type c)])"
          by blast
        with h n c il show False by (auto simp: outputs_two)
      qed
      then have "copying_ops (rewire n) = concat (map copying_ops_var (node_inputs (rewire n)))"
        using n by (auto split: gop.splits)
      with h clean show ?thesis by simp
    next
      assume "\<exists>c g s gt tys.
         rewire n = Apply (CURAND c) [g, s] tys \<and> \<not> destructive c \<and> i < 2
         \<and> pass_var (Variable t (Some (n, i)) nm)
             = Variable ([gt, Tensor (output_type c)] ! i)
                 (Some (Apply (CURAND (c\<lparr>destructive := True, destroy_map := Some [(0, [0])]\<rparr>))
                          [g, s] [gt, Tensor (output_type c)], i)) []"
      then obtain c g s gt tys' where r: "rewire n = Apply (CURAND c) [g, s] tys'"
        and p: "pass_var (Variable t (Some (n, i)) nm)
             = Variable ([gt, Tensor (output_type c)] ! i)
                 (Some (Apply (CURAND (c\<lparr>destructive := True, destroy_map := Some [(0, [0])]\<rparr>))
                          [g, s] [gt, Tensor (output_type c)], i)) []"
        by blast
      from clean r have "concat (map copying_ops_var [g, s]) = []" by simp
      with p show ?thesis by simp
    qed
  qed
next
  case (3 v)
  show ?case by simp
next
  case (4 x)
  show ?case by simp
next
  case (5 opr ins tys)
  show ?case
  proof
    assume "built_node (Apply opr ins tys)"
    then have "list_all built_var ins" by simp
    with 5 have "\<forall>x \<in> set ins. copying_ops_var (pass_var x) = []"
      by (simp add: list_all_iff)
    then show "concat (map copying_ops_var (node_inputs (rewire (Apply opr ins tys)))) = []"
      by simp
  qed
qed

lemma ex_node_outputs:
  "outputs (ex_node d) = [Variable Generic (Some (ex_node d, 0)) [],
                          Variable (Tensor (CudaNdarrayType [False, False])) (Some (ex_node d, 1)) []]"
  by (simp add: ex_node_def outputs_two)

lemma ex_node_built: "built_node (ex_node d)"
  by (simp add: ex_node_def ex_op_def CURAND_Base_init_def CudaNdarrayType_def ex_size_var_def)

lemma ex_graph_built: "list_all built_var (ex_graph d)"
  using ex_node_built [of d]
  by (simp add: ex_graph_def ex_node_outputs) (simp add: ex_node_def)

lemma ex_node_rewire: "rewire (ex_node d) = ex_node d"
  by (simp add: ex_node_def ex_size_var_def)

lemma ex_node_rule:
  "local_destructive (ex_node False) = Inr (Some (outputs (ex_node True)))"
  by (simp add: ex_node_def local_destructive_def as_destructive_def CURAND_Base_init_def
      ex_op_def CudaNdarrayType_def)

lemma ex_graph_pass: "DestructiveRewritePass (ex_graph False) = ex_graph True"
  by (simp add: DestructiveRewritePass_def ex_graph_def ex_node_outputs ex_node_rewire ex_node_rule
      local_destructive_other Let_def)

text \<open>
  C5. On a node of this module whose operation has \<open>destructive = False\<close>, the rule
  returns the outputs of a node with the same inputs and the same output types whose
  operation is the one \<open>as_destructive\<close> builds: same class, same output type, same
  seed, \<open>destructive = True\<close>. On a node whose operation is destructive, and on a node
  of any other operation, the rule does not fire. Applied over a graph of this module
  the pass leaves no operation with \<open>destructive = False\<close>, and a second application
  changes nothing.
\<close>

theorem local_destructive_pass:
  "(built_node (Apply (CURAND c) ins tys) \<and> \<not> destructive c \<longrightarrow>
      (\<exists>c'. as_destructive c = Inr c' \<and> destructive c' \<and> op_class c' = op_class c
           \<and> output_type c' = output_type c \<and> seed c' = seed c
           \<and> local_destructive (Apply (CURAND c) ins tys)
               = Inr (Some (outputs (Apply (CURAND c') ins tys)))))
   \<and> (destructive c \<longrightarrow> local_destructive (Apply (CURAND c) ins tys) = Inr None)
   \<and> local_destructive (Apply (Other_op nm) ins tys) = Inr None
   \<and> (list_all built_var g \<longrightarrow> concat (map copying_ops_var (DestructiveRewritePass g)) = [])
   \<and> DestructiveRewritePass (DestructiveRewritePass g) = DestructiveRewritePass g"
proof (intro conjI impI)
  assume "built_node (Apply (CURAND c) ins tys) \<and> \<not> destructive c"
  then have "as_destructive c = Inr (c\<lparr>destructive := True, destroy_map := Some [(0, [0])]\<rparr>)
      \<and> local_destructive (Apply (CURAND c) ins tys)
               = Inr (Some (outputs (Apply (CURAND (c\<lparr>destructive := True, destroy_map := Some [(0, [0])]\<rparr>))
                                      ins tys)))"
    using local_destructive_built [of c ins tys] by blast
  then show "\<exists>c'. as_destructive c = Inr c' \<and> destructive c' \<and> op_class c' = op_class c
           \<and> output_type c' = output_type c \<and> seed c' = seed c
           \<and> local_destructive (Apply (CURAND c) ins tys)
               = Inr (Some (outputs (Apply (CURAND c') ins tys)))"
    by simp
next
  assume "destructive c"
  then show "local_destructive (Apply (CURAND c) ins tys) = Inr None"
    by (rule local_destructive_destructive)
next
  show "local_destructive (Apply (Other_op nm) ins tys) = Inr None"
    by (rule local_destructive_other)
next
  assume "list_all built_var g"
  then show "concat (map copying_ops_var (DestructiveRewritePass g)) = []"
    by (simp add: DestructiveRewritePass_def list_all_iff pass_clean)
next
  show "DestructiveRewritePass (DestructiveRewritePass g) = DestructiveRewritePass g"
    by (simp add: DestructiveRewritePass_def pass_idem)
qed

theorem local_destructive_pass_witness:
  "built_node (ex_node False) \<and> \<not> destructive (ex_op CURAND_Uniform False)
   \<and> local_destructive (ex_node False) = Inr (Some (outputs (ex_node True)))
   \<and> destructive (ex_op CURAND_Uniform True)
   \<and> local_destructive (ex_node True) = Inr None
   \<and> list_all built_var (ex_graph False)
   \<and> concat (map copying_ops_var (ex_graph False)) = [ex_op CURAND_Uniform False, ex_op CURAND_Uniform False]
   \<and> DestructiveRewritePass (ex_graph False) = ex_graph True
   \<and> concat (map copying_ops_var (DestructiveRewritePass (ex_graph False))) = []
   \<and> DestructiveRewritePass (DestructiveRewritePass (ex_graph False)) = DestructiveRewritePass (ex_graph False)"
proof -
  note t1 = local_destructive_pass [of "ex_op CURAND_Uniform False" "[SharedVariable Py_False, ex_size_var]"
      "[Generic, Tensor (CudaNdarrayType [False, False])]" "''mul''" "ex_graph False"]
  note t2 = local_destructive_pass [of "ex_op CURAND_Uniform True" "[SharedVariable Py_False, ex_size_var]"
      "[Generic, Tensor (CudaNdarrayType [False, False])]" "''mul''" "ex_graph False"]
  have d: "\<not> destructive (ex_op CURAND_Uniform False)" "destructive (ex_op CURAND_Uniform True)"
    by (simp_all add: ex_op_def)
  from t2 d have r2: "local_destructive (ex_node True) = Inr None"
    by (simp add: ex_node_def)
  from t1 ex_graph_built have c: "concat (map copying_ops_var (DestructiveRewritePass (ex_graph False))) = []"
    and i: "DestructiveRewritePass (DestructiveRewritePass (ex_graph False)) = DestructiveRewritePass (ex_graph False)"
    by blast+
  have b: "concat (map copying_ops_var (ex_graph False)) = [ex_op CURAND_Uniform False, ex_op CURAND_Uniform False]"
    by (simp add: ex_graph_def ex_node_outputs) (simp add: ex_node_def ex_op_def ex_size_var_def)
  show ?thesis
    using ex_node_built ex_graph_built ex_node_rule ex_graph_pass d r2 c i b by blast
qed

end
